theory Spec2Isabelle
  imports Complex_Main
begin

section \<open>Numbers\<close>

text \<open>
  The client computes with JavaScript numbers. Finite values are modelled as exact reals
  (rounding is not modelled). The only unguarded division of the source is the division
  of a byte delta by the time delta in \<open>analyzeStats\<close>; its result is a \<open>jsnum\<close>, so that
  a zero time delta yields an infinity or NaN as it does in JavaScript. All other
  divisions of the source are guarded by a positive denominator and stay in the reals.
\<close>

datatype jsnum = Fin real | PosInf | NegInf | NaN

text \<open>\<open>a / b\<close> for finite \<open>a\<close> and \<open>b\<close>, where a zero \<open>b\<close> is the positive zero.\<close>

definition js_div :: "real \<Rightarrow> real \<Rightarrow> jsnum" where
  "js_div a b =
     (if b \<noteq> 0 then Fin (a / b)
      else if a > 0 then PosInf
      else if a < 0 then NegInf
      else NaN)"

fun js_add :: "jsnum \<Rightarrow> jsnum \<Rightarrow> jsnum" where
  "js_add (Fin a) (Fin b) = Fin (a + b)"
| "js_add NaN y = NaN"
| "js_add x NaN = NaN"
| "js_add PosInf NegInf = NaN"
| "js_add NegInf PosInf = NaN"
| "js_add PosInf y = PosInf"
| "js_add x PosInf = PosInf"
| "js_add NegInf y = NegInf"
| "js_add x NegInf = NegInf"

text \<open>Comparison of a number with a finite constant; every comparison with NaN is false.\<close>

fun js_lt :: "jsnum \<Rightarrow> real \<Rightarrow> bool" where
  "js_lt (Fin a) b = (a < b)"
| "js_lt NegInf b = True"
| "js_lt PosInf b = False"
| "js_lt NaN b = False"

fun js_gt :: "jsnum \<Rightarrow> real \<Rightarrow> bool" where
  "js_gt (Fin a) b = (a > b)"
| "js_gt PosInf b = True"
| "js_gt NegInf b = False"
| "js_gt NaN b = False"

text \<open>\<open>x || d\<close> for a numeric field \<open>x\<close> that may be undefined: undefined and 0 are falsy.\<close>

definition js_or :: "real option \<Rightarrow> real \<Rightarrow> real" where
  "js_or x d = (case x of None \<Rightarrow> d | Some v \<Rightarrow> if v = 0 then d else v)"

section \<open>Data model\<close>

datatype quality_level = AUDIO_ONLY | LOW | MEDIUM | HIGH

type_synonym peerId = string

text \<open>
  One entry of an \<open>RTCStatsReport\<close>. \<open>rtype\<close> is the entry's \<open>type\<close>. The counters
  \<open>bytesSent\<close> and \<open>packetsSent\<close> are read from outbound-rtp entries only, where they
  are always numbers; the remaining numeric fields may be undefined.
\<close>

record report =
  rtype :: string
  mediaType :: string
  selected :: bool
  bytesSent :: real
  packetsSent :: real
  packetsLost :: "real option"
  packetsReceived :: "real option"
  packetsRecieved :: "real option"
  roundTripTime :: "real option"
  currentRoundTripTime :: "real option"
  jitter :: "real option"

text \<open>The \<open>metrics\<close> object built by \<open>analyzeStats\<close> (its field \<open>jitter\<close> is \<open>jitter_m\<close>).\<close>

record metrics =
  timestamp :: int
  videoBitrate :: jsnum
  audioBitrate :: jsnum
  videoPacketLoss :: real
  audioPacketLoss :: real
  rtt :: real
  jitter_m :: real
  quality :: quality_level
  outboundVideo :: "report option"
  outboundAudio :: "report option"
  remoteInboundVideo :: "report option"
  remoteInboundAudio :: "report option"

text \<open>An entry of the \<open>audioLevels\<close> map (its field \<open>timestamp\<close> is \<open>timestamp_a\<close>).\<close>

record audio_data =
  level :: real
  timestamp_a :: int

text \<open>
  The module-level variables of the client. A JavaScript \<open>Map\<close> iterates in insertion
  order, so the maps are association lists; \<open>hasLocalStream\<close> says that \<open>localStream\<close>
  is not null.
\<close>

record gstate =
  currentVideoQuality :: quality_level
  isAdaptiveMode :: bool
  initialConnectionPhase :: bool
  connectionStartTime :: "int option"
  networkStats :: "(peerId \<times> metrics) list"
  hasLocalStream :: bool
  activeSpeaker :: "peerId option"
  audioLevels :: "(peerId \<times> audio_data) list"

text \<open>\<open>Map.prototype.set\<close>: an existing key keeps its position, a new key goes last.\<close>

fun map_set :: "'k \<Rightarrow> 'v \<Rightarrow> ('k \<times> 'v) list \<Rightarrow> ('k \<times> 'v) list" where
  "map_set k v [] = [(k, v)]"
| "map_set k v ((k', v') # kvs) =
     (if k' = k then (k, v) # kvs else (k', v') # map_set k v kvs)"

text \<open>
  The transport objects are outside the client: a sender is described by the kind of its
  track (\<open>None\<close> when \<open>sender.track\<close> is null) and by whether each call made on it
  succeeds; a peer connection by the result of \<open>getStats\<close> (\<open>None\<close> when it rejects),
  the value of \<open>Date.now()\<close> when its statistics are analysed, and its senders.
\<close>

record sender =
  track :: "string option"
  applyConstraintsOk :: bool
  getParametersOk :: bool
  hasEncoding0 :: bool
  setParametersOk :: bool

record peer_connection =
  getStats :: "report list option"
  dateNow :: int
  getSenders :: "sender list"

section \<open>analyzeStats\<close>

text \<open>The slots filled by the \<open>stats.forEach\<close> loop, in the order of its else-if chain.\<close>

datatype slot =
  OutboundVideo | OutboundAudio | InboundVideo | InboundAudio
  | RemoteInboundVideo | RemoteInboundAudio | Candidate

definition slotOf :: "report \<Rightarrow> slot option" where
  "slotOf r =
     (if rtype r = ''outbound-rtp'' \<and> mediaType r = ''video'' then Some OutboundVideo
      else if rtype r = ''outbound-rtp'' \<and> mediaType r = ''audio'' then Some OutboundAudio
      else if rtype r = ''inbound-rtp'' \<and> mediaType r = ''video'' then Some InboundVideo
      else if rtype r = ''inbound-rtp'' \<and> mediaType r = ''audio'' then Some InboundAudio
      else if rtype r = ''remote-inbound-rtp'' \<and> mediaType r = ''video'' then Some RemoteInboundVideo
      else if rtype r = ''remote-inbound-rtp'' \<and> mediaType r = ''audio'' then Some RemoteInboundAudio
      else if rtype r = ''candidate-pair'' \<and> selected r then Some Candidate
      else None)"

text \<open>The value of a slot after the loop: the last entry assigned to it, or null.\<close>

definition pick :: "slot \<Rightarrow> report list \<Rightarrow> report option" where
  "pick sl stats = fold (\<lambda>r acc. if slotOf r = Some sl then Some r else acc) stats None"

text \<open>
  Bitrate and sender-side packet loss of one medium, from the current outbound entry
  and the one stored with the previous metrics. The source has this block twice, for
  video and for audio, with the same text; without a current or a previous entry the
  initial values 0 of the metrics object remain.
\<close>

definition outboundMetrics ::
  "int \<Rightarrow> report option \<Rightarrow> metrics option \<Rightarrow> (metrics \<Rightarrow> report option) \<Rightarrow> jsnum \<times> real" where
  "outboundMetrics now outbound previousStats field =
     (case (outbound, previousStats) of
        (Some ob, Some prev) \<Rightarrow>
          (case field prev of
             Some pob \<Rightarrow>
               (let timeDelta = real_of_int (now - timestamp prev) / 1000;
                    bytesDelta = bytesSent ob - bytesSent pob;
                    bitrate = js_div (bytesDelta * 8) timeDelta;
                    packetsDelta = packetsSent ob - packetsSent pob;
                    packetsLostDelta = js_or (packetsLost ob) 0 - js_or (packetsLost pob) 0
                in (bitrate,
                    if packetsDelta > 0 \<and> packetsLostDelta \<ge> 0
                    then min 100 ((packetsLostDelta / packetsDelta) * 100)
                    else 0))
           | None \<Rightarrow> (Fin 0, 0))
      | _ \<Rightarrow> (Fin 0, 0))"

text \<open>A field of an optional entry that is present and truthy.\<close>

definition truthy :: "report option \<Rightarrow> (report \<Rightarrow> real option) \<Rightarrow> real option" where
  "truthy r field =
     (case r of None \<Rightarrow> None
      | Some x \<Rightarrow> (case field x of None \<Rightarrow> None | Some v \<Rightarrow> if v = 0 then None else Some v))"

definition rttFrom :: "report option \<Rightarrow> report option \<Rightarrow> report option \<Rightarrow> real" where
  "rttFrom candidate riv ria =
     (case truthy candidate currentRoundTripTime of
        Some v \<Rightarrow> v * 1000
      | None \<Rightarrow>
          (case truthy riv roundTripTime of
             Some v \<Rightarrow> v * 1000
           | None \<Rightarrow>
               (case truthy ria roundTripTime of
                  Some v \<Rightarrow> v * 1000
                | None \<Rightarrow> 0)))"

text \<open>
  Packet loss reported by the remote end for one medium: the percentage and whether it
  sets \<open>hasRemoteInboundStats\<close>.
\<close>

definition packetLossFromRemote :: "report option \<Rightarrow> real \<times> bool" where
  "packetLossFromRemote ri =
     (case ri of
        None \<Rightarrow> (0, False)
      | Some r \<Rightarrow>
          (let lost = js_or (packetsLost r) 0;
               received = js_or (packetsReceived r) (js_or (packetsRecieved r) 0)
           in if received > 0 \<or> lost > 0
              then (let totalPackets = lost + received
                    in if totalPackets > 0 then ((lost / totalPackets) * 100, True)
                       else (0, False))
              else (0, False)))"

text \<open>The fallback to an inbound entry: it replaces the loss only for more than 100 packets.\<close>

definition inboundFallback :: "report \<Rightarrow> real \<Rightarrow> real" where
  "inboundFallback ib loss =
     (let lost = js_or (packetsLost ib) 0;
          received = js_or (packetsReceived ib) 0;
          totalPackets = lost + received
      in if totalPackets > 100 then (lost / totalPackets) * 100 else loss)"

definition BANDWIDTH_THRESHOLDS_LOW :: real where
  "BANDWIDTH_THRESHOLDS_LOW = 150000"

definition BANDWIDTH_THRESHOLDS_MEDIUM :: real where
  "BANDWIDTH_THRESHOLDS_MEDIUM = 500000"

text \<open>The verdict of one link (the last part of \<open>analyzeStats\<close>).\<close>

definition determineQuality :: "bool \<Rightarrow> real \<Rightarrow> real \<Rightarrow> jsnum \<Rightarrow> quality_level" where
  "determineQuality phase rtt_ms totalPacketLoss totalBitrate =
     (if phase then HIGH
      else if rtt_ms > 500 \<or> totalPacketLoss > 15 then AUDIO_ONLY
      else if totalPacketLoss > 8 \<or> rtt_ms > 400
              \<or> (js_lt totalBitrate BANDWIDTH_THRESHOLDS_LOW \<and> js_gt totalBitrate 60000) then LOW
      else if totalPacketLoss > 3 \<or> rtt_ms > 200
              \<or> (js_lt totalBitrate BANDWIDTH_THRESHOLDS_MEDIUM \<and> js_gt totalBitrate 60000) then MEDIUM
      else if totalPacketLoss < 2 \<and> rtt_ms < 150 then HIGH
      else MEDIUM)"

text \<open>
  \<open>analyzeStats(stats, peerId)\<close>, reading \<open>networkStats\<close> and \<open>initialConnectionPhase\<close>
  from the state; \<open>now\<close> is its \<open>Date.now()\<close>. \<open>None\<close> is the result null.
\<close>

definition analyzeStats :: "gstate \<Rightarrow> int \<Rightarrow> report list \<Rightarrow> peerId \<Rightarrow> metrics option" where
  "analyzeStats s now stats peer =
     (let ov = pick OutboundVideo stats;
          oa = pick OutboundAudio stats;
          iv = pick InboundVideo stats;
          ia = pick InboundAudio stats;
          candidate = pick Candidate stats;
          riv = pick RemoteInboundVideo stats;
          ria = pick RemoteInboundAudio stats
      in if ov = None \<and> oa = None \<and> iv = None \<and> ia = None then None
         else
           (let previousStats = map_of (networkStats s) peer;
                (vBitrate, vLoss0) = outboundMetrics now ov previousStats outboundVideo;
                (aBitrate, aLoss0) = outboundMetrics now oa previousStats outboundAudio;
                rtt_ms = rttFrom candidate riv ria;
                (vRemote, vHas) = packetLossFromRemote riv;
                (aRemote, aHas) = packetLossFromRemote ria;
                hasRemoteInboundStats = (vHas \<or> aHas);
                vLoss1 = (if hasRemoteInboundStats \<and> vRemote < 100 then vRemote else vLoss0);
                aLoss1 = (if hasRemoteInboundStats \<and> aRemote < 100 then aRemote else aLoss0);
                vLoss2 = (case iv of
                            Some ib \<Rightarrow> if vLoss1 \<ge> 100 \<or> aLoss1 \<ge> 100
                                       then inboundFallback ib vLoss1 else vLoss1
                          | None \<Rightarrow> vLoss1);
                aLoss2 = (case ia of
                            Some ib \<Rightarrow> if aLoss1 \<ge> 100 then inboundFallback ib aLoss1 else aLoss1
                          | None \<Rightarrow> aLoss1);
                vLoss = min 50 (max 0 vLoss2);
                aLoss = min 50 (max 0 aLoss2);
                jit = (case ia of Some ib \<Rightarrow> js_or (jitter ib) 0 | None \<Rightarrow> 0);
                totalBitrate = js_add vBitrate aBitrate;
                totalPacketLoss = max vLoss aLoss
            in Some \<lparr> timestamp = now,
                      videoBitrate = vBitrate,
                      audioBitrate = aBitrate,
                      videoPacketLoss = vLoss,
                      audioPacketLoss = aLoss,
                      rtt = rtt_ms,
                      jitter_m = jit,
                      quality = determineQuality (initialConnectionPhase s) rtt_ms
                                  totalPacketLoss totalBitrate,
                      outboundVideo = ov,
                      outboundAudio = oa,
                      remoteInboundVideo = riv,
                      remoteInboundAudio = ria \<rparr>))"

section \<open>adaptToNetworkConditions\<close>

text \<open>
  The variables of the \<open>networkStats.forEach\<close> loop (\<open>totalBitrate\<close> is only logged).
\<close>

record aggregate =
  totalBitrate :: jsnum
  maxPacketLoss :: real
  maxRtt :: real
  peerCount :: nat
  worstQuality :: quality_level

definition aggregate0 :: aggregate where
  "aggregate0 =
     \<lparr> totalBitrate = Fin 0, maxPacketLoss = 0, maxRtt = 0, peerCount = 0,
       worstQuality = HIGH \<rparr>"

definition aggregateStep :: "peerId \<times> metrics \<Rightarrow> aggregate \<Rightarrow> aggregate" where
  "aggregateStep pm a =
     (let m = snd pm
      in \<lparr> totalBitrate = js_add (totalBitrate a) (js_add (videoBitrate m) (audioBitrate m)),
           maxPacketLoss = max (maxPacketLoss a) (max (videoPacketLoss m) (audioPacketLoss m)),
           maxRtt = max (maxRtt a) (rtt m),
           peerCount = peerCount a + 1,
           worstQuality =
             (if quality m = AUDIO_ONLY then AUDIO_ONLY
              else if quality m = LOW \<and> worstQuality a \<noteq> AUDIO_ONLY then LOW
              else if quality m = MEDIUM \<and> worstQuality a = HIGH then MEDIUM
              else worstQuality a) \<rparr>)"

definition aggregateStats :: "(peerId \<times> metrics) list \<Rightarrow> aggregate" where
  "aggregateStats ns = fold aggregateStep ns aggregate0"

text \<open>The if-chain that determines \<open>targetQuality\<close>, starting from the current quality.\<close>

definition targetQuality ::
  "quality_level \<Rightarrow> quality_level \<Rightarrow> real \<Rightarrow> real \<Rightarrow> quality_level" where
  "targetQuality current worst loss rtt_ms =
     (if worst = AUDIO_ONLY \<or> loss > 15 \<or> rtt_ms > 3000 then AUDIO_ONLY
      else if current = AUDIO_ONLY \<and> loss \<le> 10 \<and> rtt_ms \<le> 1000 then LOW
      else if worst = LOW \<or> (loss > 8 \<or> rtt_ms > 500) then
        (if current \<noteq> AUDIO_ONLY then LOW else current)
      else if worst = MEDIUM \<or> (loss > 3 \<or> rtt_ms > 200) then
        (if current = HIGH \<or> current = LOW then MEDIUM else current)
      else if (worst = HIGH \<or> current \<noteq> HIGH) \<and> loss < 2 \<and> rtt_ms < 150 then HIGH
      else current)"

text \<open>
  Whether the calls of the non-audio-only branch of \<open>adjustVideoQuality\<close> all return:
  \<open>applyConstraints\<close>, \<open>getParameters\<close> and, when there is a first encoding,
  \<open>setParameters\<close>. A call that throws leaves the try block before the assignment.
\<close>

definition applySucceeds :: "sender \<Rightarrow> bool" where
  "applySucceeds sd =
     (applyConstraintsOk sd \<and> getParametersOk sd \<and> (hasEncoding0 sd \<longrightarrow> setParametersOk sd))"

text \<open>
  \<open>adjustVideoQuality(quality, sender)\<close>: its effect on \<open>currentVideoQuality\<close>. The
  catch block only logs.
\<close>

definition adjustVideoQuality :: "quality_level \<Rightarrow> sender option \<Rightarrow> gstate \<Rightarrow> gstate" where
  "adjustVideoQuality q sdo s =
     (case sdo of
        None \<Rightarrow> s
      | Some sd \<Rightarrow>
          if track sd = None then s
          else if q = AUDIO_ONLY then s\<lparr>currentVideoQuality := AUDIO_ONLY\<rparr>
          else if \<not> applyConstraintsOk sd then s
          else if \<not> getParametersOk sd then s
          else if hasEncoding0 sd \<and> \<not> setParametersOk sd then s
          else s\<lparr>currentVideoQuality := q\<rparr>)"

text \<open>The video sender of a connection: the first sender whose track is a video track.\<close>

definition videoSender :: "peer_connection \<Rightarrow> sender option" where
  "videoSender pc = find (\<lambda>sd. track sd = Some ''video'') (getSenders pc)"

definition videoSenders :: "(peerId \<times> peer_connection) list \<Rightarrow> sender list" where
  "videoSenders pcs = List.map_filter (\<lambda>(p, pc). videoSender pc) pcs"

definition adjustVideoQualityForAllPeers ::
  "quality_level \<Rightarrow> (peerId \<times> peer_connection) list \<Rightarrow> gstate \<Rightarrow> gstate" where
  "adjustVideoQualityForAllPeers q pcs s =
     fold (\<lambda>sd st. adjustVideoQuality q (Some sd) st) (videoSenders pcs) s"

definition adaptToNetworkConditions :: "(peerId \<times> peer_connection) list \<Rightarrow> gstate \<Rightarrow> gstate" where
  "adaptToNetworkConditions pcs s =
     (if \<not> hasLocalStream s \<or> \<not> isAdaptiveMode s then s
      else
        (let a = aggregateStats (networkStats s)
         in if peerCount a = 0 then s
            else
              (let target = targetQuality (currentVideoQuality s) (worstQuality a)
                              (maxPacketLoss a) (maxRtt a)
               in if target \<noteq> currentVideoQuality s
                  then adjustVideoQualityForAllPeers target pcs s
                  else s)))"

section \<open>monitorNetworkQuality\<close>

text \<open>
  One run of the monitoring timer: \<open>startNow\<close> is the \<open>Date.now()\<close> of its first line,
  \<open>peerConnections\<close> the connections it iterates over.
\<close>

record cycle =
  startNow :: int
  peerConnections :: "(peerId \<times> peer_connection) list"

definition endInitialPhase :: "int \<Rightarrow> gstate \<Rightarrow> gstate" where
  "endInitialPhase now s =
     (case connectionStartTime s of
        Some t \<Rightarrow>
          if initialConnectionPhase s \<and> t \<noteq> 0 \<and> now - t > 10000
          then s\<lparr>initialConnectionPhase := False\<rparr> else s
      | None \<Rightarrow> s)"

text \<open>The body of the loop over the connections; a rejected \<open>getStats\<close> is only logged.\<close>

definition monitorPeer :: "peerId \<times> peer_connection \<Rightarrow> gstate \<Rightarrow> gstate" where
  "monitorPeer ppc s =
     (case getStats (snd ppc) of
        None \<Rightarrow> s
      | Some stats \<Rightarrow>
          (case analyzeStats s (dateNow (snd ppc)) stats (fst ppc) of
             None \<Rightarrow> s
           | Some m \<Rightarrow> s\<lparr>networkStats := map_set (fst ppc) m (networkStats s)\<rparr>))"

definition monitorNetworkQuality :: "cycle \<Rightarrow> gstate \<Rightarrow> gstate" where
  "monitorNetworkQuality c s =
     (let s1 = endInitialPhase (startNow c) s;
          s2 = fold monitorPeer (peerConnections c) s1
      in if networkStats s2 \<noteq> [] then adaptToNetworkConditions (peerConnections c) s2 else s2)"

definition runCycles :: "cycle list \<Rightarrow> gstate \<Rightarrow> gstate" where
  "runCycles cs s = fold monitorNetworkQuality cs s"

text \<open>The click handler of the adaptive-mode toggle.\<close>

definition adaptiveModeToggle_onclick ::
  "(peerId \<times> peer_connection) list \<Rightarrow> gstate \<Rightarrow> gstate" where
  "adaptiveModeToggle_onclick pcs s =
     (let s1 = s\<lparr>isAdaptiveMode := \<not> isAdaptiveMode s\<rparr>
      in if \<not> isAdaptiveMode s1 \<and> currentVideoQuality s1 \<noteq> HIGH
         then adjustVideoQualityForAllPeers HIGH pcs s1
         else s1)"

section \<open>updateActiveSpeaker\<close>

definition AUDIO_LEVEL_THRESHOLD :: real where
  "AUDIO_LEVEL_THRESHOLD = 1 / 100"

text \<open>The body of the \<open>audioLevels.forEach\<close> loop on the pair \<open>(maxLevel, speakerId)\<close>.\<close>

definition speakerStep ::
  "int \<Rightarrow> peerId \<times> audio_data \<Rightarrow> real \<times> peerId option \<Rightarrow> real \<times> peerId option" where
  "speakerStep now pd acc =
     (if now - timestamp_a (snd pd) < 2000 \<and> level (snd pd) > fst acc
         \<and> level (snd pd) > AUDIO_LEVEL_THRESHOLD
      then (level (snd pd), Some (fst pd))
      else acc)"

text \<open>
  \<open>updateActiveSpeaker()\<close> at time \<open>now\<close>: the new state, and whether the branch that
  announces a change (and calls \<open>updateActiveSpeakerLayout\<close>) was taken.
\<close>

definition updateActiveSpeaker :: "int \<Rightarrow> gstate \<Rightarrow> gstate \<times> bool" where
  "updateActiveSpeaker now s =
     (if audioLevels s = [] then (s, False)
      else
        (let speakerId = snd (fold (speakerStep now) (audioLevels s) (0, None))
         in if speakerId \<noteq> activeSpeaker s
            then (s\<lparr>activeSpeaker := speakerId\<rparr>, True)
            else (s, False)))"

section \<open>The specification's notions\<close>

text \<open>The first band whose condition holds decides; \<open>d\<close> is the default.\<close>

fun firstMatch :: "(bool \<times> 'a) list \<Rightarrow> 'a \<Rightarrow> 'a" where
  "firstMatch [] d = d"
| "firstMatch ((c, v) # bands) d = (if c then v else firstMatch bands d)"

text \<open>
  The classifier as the specification words it: the priority bands over the link's round
  trip time, \<open>loss = max(videoLoss, audioLoss)\<close> and
  \<open>totalBitrate = videoBitrate + audioBitrate\<close>.
\<close>

definition QualityClassifier :: "metrics \<Rightarrow> quality_level" where
  "QualityClassifier m =
     (let loss = max (videoPacketLoss m) (audioPacketLoss m);
          total = js_add (videoBitrate m) (audioBitrate m);
          r = rtt m
      in firstMatch
           [(r > 500 \<or> loss > 15, AUDIO_ONLY),
            (loss > 8 \<or> r > 400 \<or> (js_lt total 150000 \<and> js_gt total 60000), LOW),
            (loss > 3 \<or> r > 200 \<or> (js_lt total 500000 \<and> js_gt total 60000), MEDIUM),
            (loss < 2 \<and> r < 150, HIGH)]
           MEDIUM)"

text \<open>The order \<open>AUDIO_ONLY < LOW < MEDIUM < HIGH\<close> of the quality levels.\<close>

fun rank :: "quality_level \<Rightarrow> nat" where
  "rank AUDIO_ONLY = 0"
| "rank LOW = 1"
| "rank MEDIUM = 2"
| "rank HIGH = 3"

text \<open>The loss of a link: the larger of its video and audio loss.\<close>

definition linkLoss :: "metrics \<Rightarrow> real" where
  "linkLoss m = max (videoPacketLoss m) (audioPacketLoss m)"

text \<open>
  A participant qualifies as speaker at time \<open>now\<close>: the level was updated within the
  last 2 seconds and exceeds the threshold.
\<close>

definition qualifies :: "int \<Rightarrow> peerId \<times> audio_data \<Rightarrow> bool" where
  "qualifies now pd =
     (now - timestamp_a (snd pd) < 2000 \<and> level (snd pd) > AUDIO_LEVEL_THRESHOLD)"

section \<open>Concrete inputs\<close>

text \<open>The module's initial values, and the state after joining at time \<open>t\<close>.\<close>

definition initialState :: gstate where
  "initialState =
     \<lparr> currentVideoQuality = HIGH, isAdaptiveMode = True, initialConnectionPhase = True,
       connectionStartTime = None, networkStats = [], hasLocalStream = False,
       activeSpeaker = None, audioLevels = [] \<rparr>"

definition joinedState :: "int \<Rightarrow> gstate" where
  "joinedState t = initialState\<lparr>hasLocalStream := True, connectionStartTime := Some t\<rparr>"

definition emptyReport :: "string \<Rightarrow> string \<Rightarrow> report" where
  "emptyReport ty media =
     \<lparr> rtype = ty, mediaType = media, selected = False, bytesSent = 0, packetsSent = 0,
       packetsLost = None, packetsReceived = None, packetsRecieved = None,
       roundTripTime = None, currentRoundTripTime = None, jitter = None \<rparr>"

text \<open>Stored metrics of a link with the given loss, round trip time and verdict.\<close>

definition linkMetrics :: "real \<Rightarrow> real \<Rightarrow> quality_level \<Rightarrow> metrics" where
  "linkMetrics loss rtt_ms q =
     \<lparr> timestamp = 0, videoBitrate = Fin 0, audioBitrate = Fin 0, videoPacketLoss = loss,
       audioPacketLoss = 0, rtt = rtt_ms, jitter_m = 0, quality = q,
       outboundVideo = None, outboundAudio = None, remoteInboundVideo = None,
       remoteInboundAudio = None \<rparr>"

definition goodSender :: sender where
  "goodSender =
     \<lparr> track = Some ''video'', applyConstraintsOk = True, getParametersOk = True,
       hasEncoding0 = True, setParametersOk = True \<rparr>"

definition outboundVideoReport :: "real \<Rightarrow> real \<Rightarrow> report" where
  "outboundVideoReport bytes packets =
     (emptyReport ''outbound-rtp'' ''video'')\<lparr>bytesSent := bytes, packetsSent := packets\<rparr>"

definition remoteInboundVideoReport :: "real \<Rightarrow> real \<Rightarrow> report" where
  "remoteInboundVideoReport lost received =
     (emptyReport ''remote-inbound-rtp'' ''video'')
       \<lparr>packetsLost := Some lost, packetsReceived := Some received\<rparr>"

definition candidateReport :: "real \<Rightarrow> report" where
  "candidateReport rtt_s =
     (emptyReport ''candidate-pair'' [])\<lparr>selected := True, currentRoundTripTime := Some rtt_s\<rparr>"

text \<open>
  A first monitoring run 3 seconds after joining at time 1000000: one peer whose selected
  candidate pair reports a round trip time of 4 seconds.
\<close>

definition graceCycle :: cycle where
  "graceCycle =
     \<lparr> startNow = 1003000,
       peerConnections =
         [(''B'', \<lparr> getStats = Some [outboundVideoReport 50000 100, candidateReport 4],
                   dateNow = 1003000, getSenders = [goodSender] \<rparr>)] \<rparr>"

text \<open>Peer A is healthy, peer B has 20% loss and a round trip time of 4000 ms.\<close>

definition twoPeerStats :: "(peerId \<times> metrics) list" where
  "twoPeerStats = [(''A'', linkMetrics 0 50 HIGH), (''B'', linkMetrics 20 4000 AUDIO_ONLY)]"

definition twoPeerState :: gstate where
  "twoPeerState =
     (joinedState 1000000)\<lparr>initialConnectionPhase := False, networkStats := twoPeerStats\<rparr>"

definition onePeerConnection :: "(peerId \<times> peer_connection) list" where
  "onePeerConnection = [(''A'', \<lparr> getStats = None, dateNow = 0, getSenders = [goodSender] \<rparr>)]"

text \<open>
  The audio levels of the scenario at time 10000: A 0.02 (age 500), B 0.6 (age 100),
  C 0.5 (age 3000).
\<close>

definition threeSpeakers :: "(peerId \<times> audio_data) list" where
  "threeSpeakers =
     [(''A'', \<lparr> level = 2 / 100, timestamp_a = 9500 \<rparr>),
      (''B'', \<lparr> level = 6 / 10, timestamp_a = 9900 \<rparr>),
      (''C'', \<lparr> level = 5 / 10, timestamp_a = 7000 \<rparr>)]"

text \<open>The metrics stored for a link at time \<open>t\<close> with the given outbound video entry.\<close>

definition previousMetrics :: "int \<Rightarrow> report \<Rightarrow> metrics" where
  "previousMetrics t ob = (linkMetrics 0 0 HIGH)\<lparr>timestamp := t, outboundVideo := Some ob\<rparr>"

text \<open>After the initial phase, no metrics stored yet.\<close>

definition measuringState :: gstate where
  "measuringState = (joinedState 1000000)\<lparr>initialConnectionPhase := False\<rparr>"

text \<open>The remote end reports 1 packet lost and 9 received: a sample of 10 packets.\<close>

definition smallSampleStats :: "report list" where
  "smallSampleStats = [outboundVideoReport 0 0, remoteInboundVideoReport 1 9]"

text \<open>
  Peer B had sent 1000 bytes in 10 packets at time 1000000; its next entry reports 400
  bytes, a counter that went down.
\<close>

definition resetState :: gstate where
  "resetState =
     measuringState\<lparr>networkStats := [(''B'', previousMetrics 1000000 (outboundVideoReport 1000 10))]\<rparr>"

definition resetStats :: "report list" where
  "resetStats = [outboundVideoReport 400 20]"

text \<open>In audio-only mode, with one link at 5% loss and 300 ms round trip time.\<close>

definition recoveringState :: gstate where
  "recoveringState =
     measuringState\<lparr>currentVideoQuality := AUDIO_ONLY,
                      networkStats := [(''A'', linkMetrics 5 300 MEDIUM)]\<rparr>"

definition failingSender :: sender where
  "failingSender = goodSender\<lparr>setParametersOk := False\<rparr>"

definition manualState :: gstate where
  "manualState = measuringState\<lparr>isAdaptiveMode := False\<rparr>"

text \<open>A monitoring run in which peer B reports 20% loss from the remote end.\<close>

definition lossyCycle :: cycle where
  "lossyCycle =
     \<lparr> startNow = 1020000,
       peerConnections =
         [(''B'', \<lparr> getStats = Some [outboundVideoReport 50000 100,
                                        remoteInboundVideoReport 200 800],
                   dateNow = 1020000, getSenders = [goodSender] \<rparr>)] \<rparr>"

text \<open>Nobody is tracked in \<open>audioLevels\<close>, and B was the active speaker.\<close>

definition lastSpeakerLeft :: gstate where
  "lastSpeakerLeft = measuringState\<lparr>activeSpeaker := Some ''B''\<rparr>"

definition threeSpeakerState :: gstate where
  "threeSpeakerState = measuringState\<lparr>audioLevels := threeSpeakers\<rparr>"

text \<open>A connection to peer B whose statistics, read at time 1003000, are \<open>stats\<close>.\<close>

definition peerWith :: "report list \<Rightarrow> peer_connection" where
  "peerWith stats = \<lparr> getStats = Some stats, dateNow = 1003000, getSenders = [goodSender] \<rparr>"

section \<open>Invariant of the speaker loop\<close>

text \<open>
  What the pair \<open>(maxLevel, speakerId)\<close> says about the entries \<open>seen\<close> so far: without
  a speaker none of them qualifies and \<open>maxLevel\<close> is still 0; a speaker is one of them,
  qualifies, and has the highest level of those that qualify.
\<close>

definition speakerInv :: "int \<Rightarrow> (peerId \<times> audio_data) set \<Rightarrow> real \<times> peerId option \<Rightarrow> bool" where
  "speakerInv now seen acc =
     (case snd acc of
        None \<Rightarrow> fst acc = 0 \<and> (\<forall>pd\<in>seen. \<not> qualifies now pd)
      | Some p \<Rightarrow>
          (\<exists>d. (p, d) \<in> seen \<and> qualifies now (p, d) \<and> level d = fst acc
               \<and> (\<forall>pd\<in>seen. qualifies now pd \<longrightarrow> level (snd pd) \<le> fst acc)))"

section \<open>Facts about analyzeStats\<close>

lemma if_None_Some_eq_None: "((if c then None else Some x) = None) = c"
  by simp

lemma analyzeStats_None_iff:
  "analyzeStats s now stats p = None \<longleftrightarrow>
     (pick OutboundVideo stats = None \<and> pick OutboundAudio stats = None
      \<and> pick InboundVideo stats = None \<and> pick InboundAudio stats = None)"
  unfolding analyzeStats_def Let_def case_prod_beta by (rule if_None_Some_eq_None)

lemma analyzeStats_the:
  assumes "analyzeStats s now stats p = Some m"
  shows "m = the (analyzeStats s now stats p)"
    and "\<not> (pick OutboundVideo stats = None \<and> pick OutboundAudio stats = None
      \<and> pick InboundVideo stats = None \<and> pick InboundAudio stats = None)"
  using assms analyzeStats_None_iff [of s now stats p] by simp_all

lemma analyzeStats_quality:
  assumes "analyzeStats s now stats p = Some m"
  shows "quality m = determineQuality (initialConnectionPhase s) (rtt m)
           (max (videoPacketLoss m) (audioPacketLoss m))
           (js_add (videoBitrate m) (audioBitrate m))"
  unfolding analyzeStats_the(1) [OF assms]
  unfolding analyzeStats_def Let_def case_prod_beta if_not_P [OF analyzeStats_the(2) [OF assms]]
  by (simp split del: if_split)

text \<open>The final safety check: both losses of a result lie between 0 and 50.\<close>

lemma analyzeStats_loss_range:
  assumes "analyzeStats s now stats p = Some m"
  shows "0 \<le> videoPacketLoss m \<and> videoPacketLoss m \<le> 50
         \<and> 0 \<le> audioPacketLoss m \<and> audioPacketLoss m \<le> 50"
  unfolding analyzeStats_the(1) [OF assms]
  unfolding analyzeStats_def Let_def case_prod_beta if_not_P [OF analyzeStats_the(2) [OF assms]]
  by (simp split del: if_split)

lemma analyzeStats_bitrates:
  assumes "analyzeStats s now stats p = Some m"
  shows "videoBitrate m = fst (outboundMetrics now (pick OutboundVideo stats)
                                  (map_of (networkStats s) p) outboundVideo)
         \<and> audioBitrate m = fst (outboundMetrics now (pick OutboundAudio stats)
                                  (map_of (networkStats s) p) outboundAudio)"
  unfolding analyzeStats_the(1) [OF assms]
  unfolding analyzeStats_def Let_def case_prod_beta if_not_P [OF analyzeStats_the(2) [OF assms]]
  by (simp split del: if_split)

lemma determineQuality_bands:
  "determineQuality False r l t =
     firstMatch
       [(r > 500 \<or> l > 15, AUDIO_ONLY),
        (l > 8 \<or> r > 400 \<or> (js_lt t 150000 \<and> js_gt t 60000), LOW),
        (l > 3 \<or> r > 200 \<or> (js_lt t 500000 \<and> js_gt t 60000), MEDIUM),
        (l < 2 \<and> r < 150, HIGH)]
       MEDIUM"
  by (simp add: determineQuality_def BANDWIDTH_THRESHOLDS_LOW_def BANDWIDTH_THRESHOLDS_MEDIUM_def)

text \<open>During the initial connection phase every verdict of \<open>analyzeStats\<close> is HIGH.\<close>

lemma grace_period_verdict_high:
  assumes "initialConnectionPhase s" and "analyzeStats s now stats p = Some m"
  shows "quality m = HIGH"
  using assms(1) analyzeStats_quality [OF assms(2)] by (simp add: determineQuality_def)

lemma map_of_map_set: "map_of (map_set k v kvs) k = Some v"
  by (induction kvs) auto

lemma outboundMetrics_no_previous: "outboundMetrics now ob None field = (Fin 0, 0)"
  by (simp add: outboundMetrics_def split: option.splits)

section \<open>Facts about the controller\<close>

lemma adjustVideoQuality_quality:
  "currentVideoQuality (adjustVideoQuality q (Some sd) s) =
     (if track sd \<noteq> None \<and> (q = AUDIO_ONLY \<or> applySucceeds sd) then q
      else currentVideoQuality s)"
  by (auto simp add: adjustVideoQuality_def applySucceeds_def)

lemma adjustVideoQuality_other:
  "isAdaptiveMode (adjustVideoQuality q sdo s) = isAdaptiveMode s"
  "networkStats (adjustVideoQuality q sdo s) = networkStats s"
  "hasLocalStream (adjustVideoQuality q sdo s) = hasLocalStream s"
  "initialConnectionPhase (adjustVideoQuality q sdo s) = initialConnectionPhase s"
  by (simp_all add: adjustVideoQuality_def split: option.splits)

lemma fold_adjust_quality:
  "currentVideoQuality (fold (\<lambda>sd st. adjustVideoQuality q (Some sd) st) sds s) =
     (if \<exists>sd\<in>set sds. track sd \<noteq> None \<and> (q = AUDIO_ONLY \<or> applySucceeds sd) then q
      else currentVideoQuality s)"
proof (induction sds arbitrary: s)
  case Nil
  show ?case by simp
next
  case (Cons sd sds)
  show ?case
    by (simp only: fold_simps Cons.IH adjustVideoQuality_quality) auto
qed

lemma fold_adjust_other:
  "isAdaptiveMode (fold (\<lambda>sd st. adjustVideoQuality q (Some sd) st) sds s) = isAdaptiveMode s"
  by (induction sds arbitrary: s) (simp_all add: adjustVideoQuality_other)

lemma videoSenders_track:
  assumes "sd \<in> set (videoSenders pcs)"
  shows "track sd = Some ''video''"
proof -
  from assms obtain p pc where "videoSender pc = Some sd"
    by (auto simp add: videoSenders_def List.map_filter_def)
  then show ?thesis
    by (auto simp add: videoSender_def find_Some_iff)
qed

lemma adjustAll_quality:
  "currentVideoQuality (adjustVideoQualityForAllPeers q pcs s) =
     (if \<exists>sd\<in>set (videoSenders pcs). q = AUDIO_ONLY \<or> applySucceeds sd then q
      else currentVideoQuality s)"
proof -
  have "(\<exists>sd\<in>set (videoSenders pcs). track sd \<noteq> None \<and> (q = AUDIO_ONLY \<or> applySucceeds sd))
        = (\<exists>sd\<in>set (videoSenders pcs). q = AUDIO_ONLY \<or> applySucceeds sd)"
    using videoSenders_track [of _ pcs] by auto
  then show ?thesis
    by (simp only: adjustVideoQualityForAllPeers_def fold_adjust_quality)
qed

lemma adjustAll_adaptive:
  "isAdaptiveMode (adjustVideoQualityForAllPeers q pcs s) = isAdaptiveMode s"
  by (simp add: adjustVideoQualityForAllPeers_def fold_adjust_other)

lemma adapt_quality_cases:
  "currentVideoQuality (adaptToNetworkConditions pcs s) = currentVideoQuality s
   \<or> currentVideoQuality (adaptToNetworkConditions pcs s) =
       targetQuality (currentVideoQuality s) (worstQuality (aggregateStats (networkStats s)))
         (maxPacketLoss (aggregateStats (networkStats s))) (maxRtt (aggregateStats (networkStats s)))"
  by (simp add: adaptToNetworkConditions_def Let_def adjustAll_quality)

lemma adapt_off: "\<not> isAdaptiveMode s \<Longrightarrow> adaptToNetworkConditions pcs s = s"
  by (simp add: adaptToNetworkConditions_def)

lemma endInitialPhase_other:
  "currentVideoQuality (endInitialPhase n s) = currentVideoQuality s"
  "isAdaptiveMode (endInitialPhase n s) = isAdaptiveMode s"
  "hasLocalStream (endInitialPhase n s) = hasLocalStream s"
  "networkStats (endInitialPhase n s) = networkStats s"
  by (simp_all add: endInitialPhase_def split: option.splits)

lemma monitorPeer_other:
  "currentVideoQuality (monitorPeer ppc s) = currentVideoQuality s"
  "isAdaptiveMode (monitorPeer ppc s) = isAdaptiveMode s"
  "hasLocalStream (monitorPeer ppc s) = hasLocalStream s"
  "initialConnectionPhase (monitorPeer ppc s) = initialConnectionPhase s"
  by (simp_all add: monitorPeer_def split: option.splits)

lemma fold_monitorPeer_other:
  "currentVideoQuality (fold monitorPeer pcs s) = currentVideoQuality s"
  "isAdaptiveMode (fold monitorPeer pcs s) = isAdaptiveMode s"
  "hasLocalStream (fold monitorPeer pcs s) = hasLocalStream s"
  "initialConnectionPhase (fold monitorPeer pcs s) = initialConnectionPhase s"
  by (induction pcs arbitrary: s) (simp_all add: monitorPeer_other)

lemma monitor_off:
  assumes "\<not> isAdaptiveMode s"
  shows "currentVideoQuality (monitorNetworkQuality c s) = currentVideoQuality s"
    and "\<not> isAdaptiveMode (monitorNetworkQuality c s)"
  using assms
  by (simp_all add: monitorNetworkQuality_def Let_def adapt_off fold_monitorPeer_other
      endInitialPhase_other)

lemma runCycles_off:
  assumes "\<not> isAdaptiveMode s"
  shows "currentVideoQuality (runCycles cs s) = currentVideoQuality s"
  using assms
proof (induction cs arbitrary: s)
  case Nil
  show ?case by (simp add: runCycles_def)
next
  case (Cons c cs)
  have "currentVideoQuality (runCycles cs (monitorNetworkQuality c s))
        = currentVideoQuality (monitorNetworkQuality c s)"
    using Cons.IH monitor_off(2) [OF Cons.prems] by blast
  then show ?case
    using monitor_off(1) [OF Cons.prems] by (simp add: runCycles_def)
qed

lemma targetQuality_from_audio_only:
  "targetQuality AUDIO_ONLY w l r =
     (if w = AUDIO_ONLY \<or> l > 15 \<or> r > 3000 then AUDIO_ONLY
      else if l \<le> 10 \<and> r \<le> 1000 then LOW
      else AUDIO_ONLY)"
  by (auto simp add: targetQuality_def)

lemma monitor_quality_cases:
  "currentVideoQuality (monitorNetworkQuality c s) = currentVideoQuality s
   \<or> (\<exists>w l r. currentVideoQuality (monitorNetworkQuality c s)
                 = targetQuality (currentVideoQuality s) w l r)"
proof -
  let ?s2 = "fold monitorPeer (peerConnections c) (endInitialPhase (startNow c) s)"
  have q: "currentVideoQuality ?s2 = currentVideoQuality s"
    by (simp add: fold_monitorPeer_other endInitialPhase_other)
  show ?thesis
  proof (cases "networkStats ?s2 = []")
    case True
    then show ?thesis by (simp add: monitorNetworkQuality_def Let_def q)
  next
    case False
    then have "monitorNetworkQuality c s = adaptToNetworkConditions (peerConnections c) ?s2"
      by (simp add: monitorNetworkQuality_def Let_def)
    then show ?thesis
      using adapt_quality_cases [of "peerConnections c" ?s2] q by metis
  qed
qed

section \<open>Facts about the aggregation loop\<close>

lemma Max_insert_max:
  assumes "finite A"
  shows "Max (insert (max a b) A) = Max (insert a (insert b A))"
  using assms by (cases "A = {}") (simp_all add: max.assoc)

lemma Min_insert_min:
  assumes "finite A"
  shows "Min (insert (min a b) A) = Min (insert a (insert b A))"
  using assms by (cases "A = {}") (simp_all add: min.assoc)

lemma fold_aggregate_maxPacketLoss:
  "maxPacketLoss (fold aggregateStep ns a) =
     Max (insert (maxPacketLoss a) (linkLoss ` snd ` set ns))"
proof (induction ns arbitrary: a)
  case Nil
  show ?case by simp
next
  case (Cons pm ns)
  let ?S = "linkLoss ` snd ` set ns"
  have step: "maxPacketLoss (aggregateStep pm a) = max (maxPacketLoss a) (linkLoss (snd pm))"
    by (simp add: aggregateStep_def Let_def linkLoss_def)
  have "maxPacketLoss (fold aggregateStep (pm # ns) a)
        = Max (insert (max (maxPacketLoss a) (linkLoss (snd pm))) ?S)"
    by (simp only: fold_simps Cons.IH step)
  also have "\<dots> = Max (insert (maxPacketLoss a) (insert (linkLoss (snd pm)) ?S))"
    by (rule Max_insert_max) simp
  also have "insert (linkLoss (snd pm)) ?S = linkLoss ` snd ` set (pm # ns)"
    by simp
  finally show ?case .
qed

lemma fold_aggregate_maxRtt:
  "maxRtt (fold aggregateStep ns a) = Max (insert (maxRtt a) (rtt ` snd ` set ns))"
proof (induction ns arbitrary: a)
  case Nil
  show ?case by simp
next
  case (Cons pm ns)
  let ?S = "rtt ` snd ` set ns"
  have step: "maxRtt (aggregateStep pm a) = max (maxRtt a) (rtt (snd pm))"
    by (simp add: aggregateStep_def Let_def)
  have "maxRtt (fold aggregateStep (pm # ns) a) = Max (insert (max (maxRtt a) (rtt (snd pm))) ?S)"
    by (simp only: fold_simps Cons.IH step)
  also have "\<dots> = Max (insert (maxRtt a) (insert (rtt (snd pm)) ?S))"
    by (rule Max_insert_max) simp
  also have "insert (rtt (snd pm)) ?S = rtt ` snd ` set (pm # ns)"
    by simp
  finally show ?case .
qed

lemma worstQuality_step:
  "rank (worstQuality (aggregateStep pm a)) =
     min (rank (worstQuality a)) (rank (quality (snd pm)))"
  by (cases "quality (snd pm)"; cases "worstQuality a"; simp add: aggregateStep_def Let_def)

lemma fold_aggregate_worstQuality:
  "rank (worstQuality (fold aggregateStep ns a)) =
     Min (insert (rank (worstQuality a)) (rank ` quality ` snd ` set ns))"
proof (induction ns arbitrary: a)
  case Nil
  show ?case by simp
next
  case (Cons pm ns)
  let ?S = "rank ` quality ` snd ` set ns"
  have "rank (worstQuality (fold aggregateStep (pm # ns) a))
        = Min (insert (min (rank (worstQuality a)) (rank (quality (snd pm)))) ?S)"
    by (simp only: fold_simps Cons.IH worstQuality_step)
  also have "\<dots> = Min (insert (rank (worstQuality a)) (insert (rank (quality (snd pm))) ?S))"
    by (rule Min_insert_min) simp
  also have "insert (rank (quality (snd pm))) ?S = rank ` quality ` snd ` set (pm # ns)"
    by simp
  finally show ?case .
qed

lemma fold_aggregate_peerCount:
  "peerCount (fold aggregateStep ns a) = peerCount a + length ns"
  by (induction ns arbitrary: a) (simp_all add: aggregateStep_def Let_def)

lemma rank_le_3: "rank q \<le> 3"
  by (cases q) simp_all

lemma aggregate_worst:
  assumes "ns \<noteq> []"
  shows "rank (worstQuality (aggregateStats ns)) = Min (rank ` quality ` snd ` set ns)"
proof -
  let ?S = "rank ` quality ` snd ` set ns"
  have fin: "finite ?S"
    by (intro finite_imageI finite_set)
  have ne: "?S \<noteq> {}"
    using assms by (simp only: image_is_empty set_empty not_False_eq_True)
  have "Min ?S \<in> ?S"
    using fin ne by (rule Min_in)
  then have "Min ?S \<le> 3"
    by (elim imageE) (simp only: rank_le_3)
  then have "min 3 (Min ?S) = Min ?S"
    by (rule min_absorb2)
  moreover have "Min (insert 3 ?S) = min 3 (Min ?S)"
    using fin ne by (rule Min_insert)
  ultimately have "Min (insert 3 ?S) = Min ?S"
    by (rule trans [rotated])
  moreover have "rank (worstQuality aggregate0) = 3"
    by (simp add: aggregate0_def)
  ultimately show ?thesis
    by (simp only: aggregateStats_def fold_aggregate_worstQuality)
qed

section \<open>Facts about the speaker loop\<close>

lemma speakerStep_inv:
  assumes "speakerInv now S acc"
  shows "speakerInv now (insert pd S) (speakerStep now pd acc)"
proof (cases "now - timestamp_a (snd pd) < 2000 \<and> level (snd pd) > fst acc
               \<and> level (snd pd) > AUDIO_LEVEL_THRESHOLD")
  case True
  then have step: "speakerStep now pd acc = (level (snd pd), Some (fst pd))"
    unfolding speakerStep_def by (rule if_P)
  have q: "qualifies now (fst pd, snd pd)"
    using True by (simp add: qualifies_def)
  have le: "level (snd x) \<le> level (snd pd)" if "x \<in> S" and "qualifies now x" for x
    using assms that True by (auto simp add: speakerInv_def split: option.splits)
  show ?thesis
    unfolding step speakerInv_def using q le
    by (auto intro!: exI [of _ "snd pd"])
next
  case False
  then have step: "speakerStep now pd acc = acc"
    unfolding speakerStep_def by (rule if_not_P)
  have pos: "snd acc = None \<Longrightarrow> \<not> qualifies now pd"
    using assms False
    by (auto simp add: speakerInv_def qualifies_def AUDIO_LEVEL_THRESHOLD_def)
  have le: "qualifies now pd \<Longrightarrow> level (snd pd) \<le> fst acc"
    using False by (auto simp add: qualifies_def)
  show ?thesis
    unfolding step using assms pos le
    by (auto simp add: speakerInv_def split: option.splits)
qed

lemma fold_speakerStep_inv:
  assumes "speakerInv now S acc"
  shows "speakerInv now (S \<union> set xs) (fold (speakerStep now) xs acc)"
  using assms
proof (induction xs arbitrary: S acc)
  case Nil
  then show ?case by simp
next
  case (Cons pd xs)
  have "speakerInv now (insert pd S \<union> set xs) (fold (speakerStep now) xs (speakerStep now pd acc))"
    by (rule Cons.IH) (rule speakerStep_inv [OF Cons.prems])
  then show ?case by simp
qed

lemma speakerInv_start: "speakerInv now {} (0, None)"
  by (simp add: speakerInv_def)

lemma speaker_loop:
  "speakerInv now (set xs) (fold (speakerStep now) xs (0, None))"
  using fold_speakerStep_inv [OF speakerInv_start, of now xs] by simp

section \<open>The classifier\<close>

text \<open>
  Claim C1. Outside the initial connection phase the verdict of a link is the first match
  over the priority bands, with \<open>loss = max(videoLoss, audioLoss)\<close> and
  \<open>totalBitrate = videoBitrate + audioBitrate\<close>: audio-only for \<open>rtt > 500\<close> or
  \<open>loss > 15\<close>; else low for \<open>loss > 8\<close>, \<open>rtt > 400\<close> or a total bitrate between 60000
  and 150000; else medium for \<open>loss > 3\<close>, \<open>rtt > 200\<close> or a total bitrate between 60000
  and 500000; else high for \<open>loss < 2\<close> and \<open>rtt < 150\<close>; otherwise medium. The decision of
  the source agrees with these bands on every metrics value \<open>m\<close> (zero, negative, infinite
  or NaN bitrates included), and it is the verdict stored in every result of
  \<open>analyzeStats\<close>.
\<close>

theorem classifier_first_match:
  "determineQuality False (rtt m) (max (videoPacketLoss m) (audioPacketLoss m))
       (js_add (videoBitrate m) (audioBitrate m)) = QualityClassifier m
   \<and> (\<not> initialConnectionPhase s \<and> analyzeStats s now stats p = Some m'
        \<longrightarrow> quality m' = QualityClassifier m')"
proof -
  have a: "determineQuality False (rtt x) (max (videoPacketLoss x) (audioPacketLoss x))
       (js_add (videoBitrate x) (audioBitrate x)) = QualityClassifier x" for x
    by (simp only: QualityClassifier_def Let_def determineQuality_bands)
  have "quality m' = QualityClassifier m'"
    if "\<not> initialConnectionPhase s" and "analyzeStats s now stats p = Some m'"
    using that(1) analyzeStats_quality [OF that(2)] a [of m'] by simp
  then show ?thesis
    using a [of m] by blast
qed

text \<open>
  A link whose remote end reports 10% loss, after the initial phase: the verdict is the
  classifier's, LOW.
\<close>

theorem classifier_first_match_witness:
  "\<not> initialConnectionPhase measuringState
   \<and> analyzeStats measuringState 1003000 smallSampleStats ''B'' \<noteq> None
   \<and> quality (the (analyzeStats measuringState 1003000 smallSampleStats ''B''))
       = QualityClassifier (the (analyzeStats measuringState 1003000 smallSampleStats ''B''))
   \<and> quality (the (analyzeStats measuringState 1003000 smallSampleStats ''B'')) = LOW"
proof -
  have a: "\<not> initialConnectionPhase measuringState"
    by code_simp
  have b: "analyzeStats measuringState 1003000 smallSampleStats ''B''
           = Some (the (analyzeStats measuringState 1003000 smallSampleStats ''B''))"
    by code_simp
  have c: "quality (the (analyzeStats measuringState 1003000 smallSampleStats ''B'')) = LOW"
    by code_simp
  have d: "analyzeStats measuringState 1003000 smallSampleStats ''B'' \<noteq> None"
    by code_simp
  show ?thesis
    using classifier_first_match [of _ measuringState 1003000 smallSampleStats "''B''"
        "the (analyzeStats measuringState 1003000 smallSampleStats ''B'')"] a b c d
    by simp
qed

section \<open>The initial connection phase\<close>

text \<open>
  Claim C2. During the first 10 seconds every link's verdict is HIGH and no quality
  transition is to happen. The verdicts are HIGH (\<open>grace_period_verdict_high\<close>), but
  \<open>adaptToNetworkConditions\<close> still runs and compares the raw maxima with its own
  thresholds: 3 seconds after joining, a round trip time of 4 seconds on one link takes
  the client from HIGH to audio-only although the phase has not ended and the link's
  verdict is HIGH.
\<close>

theorem grace_period_transition:
  "initialConnectionPhase (joinedState 1000000)
   \<and> currentVideoQuality (joinedState 1000000) = HIGH
   \<and> initialConnectionPhase (monitorNetworkQuality graceCycle (joinedState 1000000))
   \<and> map_option quality
        (map_of (networkStats (monitorNetworkQuality graceCycle (joinedState 1000000))) ''B'')
       = Some HIGH
   \<and> currentVideoQuality (monitorNetworkQuality graceCycle (joinedState 1000000)) = AUDIO_ONLY"
  by code_simp

section \<open>Recovery from audio-only\<close>

text \<open>
  Claim C3. Starting in state AUDIO_ONLY, the target quality is never MEDIUM or HIGH,
  whatever the verdicts and metrics are: it is LOW when the conditions are not severe and
  \<open>maxLoss \<le> 10\<close> and \<open>maxRtt \<le> 1000\<close>, and AUDIO_ONLY otherwise. Hence the quality after
  \<open>adaptToNetworkConditions\<close>, and after a whole monitoring run, is AUDIO_ONLY or LOW.
\<close>

theorem audio_only_recovery_single_step:
  assumes "currentVideoQuality s = AUDIO_ONLY"
  shows "targetQuality (currentVideoQuality s) w l r =
           (if w = AUDIO_ONLY \<or> l > 15 \<or> r > 3000 then AUDIO_ONLY
            else if l \<le> 10 \<and> r \<le> 1000 then LOW
            else AUDIO_ONLY)
         \<and> currentVideoQuality (adaptToNetworkConditions pcs s) \<in> {AUDIO_ONLY, LOW}
         \<and> currentVideoQuality (monitorNetworkQuality c s) \<in> {AUDIO_ONLY, LOW}"
proof -
  have t: "\<And>w l r. targetQuality AUDIO_ONLY w l r = AUDIO_ONLY
                   \<or> targetQuality AUDIO_ONLY w l r = LOW"
    by (simp add: targetQuality_from_audio_only)
  have "currentVideoQuality (adaptToNetworkConditions pcs s) = AUDIO_ONLY
        \<or> currentVideoQuality (adaptToNetworkConditions pcs s) = LOW"
    using adapt_quality_cases [of pcs s] t assms by metis
  then have a: "currentVideoQuality (adaptToNetworkConditions pcs s) \<in> {AUDIO_ONLY, LOW}"
    by simp
  have "currentVideoQuality (monitorNetworkQuality c s) = AUDIO_ONLY
        \<or> currentVideoQuality (monitorNetworkQuality c s) = LOW"
    using monitor_quality_cases [of c s] t assms by metis
  then have m: "currentVideoQuality (monitorNetworkQuality c s) \<in> {AUDIO_ONLY, LOW}"
    by simp
  show ?thesis
    using a m assms by (simp add: targetQuality_from_audio_only)
qed

text \<open>
  From AUDIO_ONLY with a worst verdict MEDIUM, 5% loss and 300 ms: the target and the
  new quality are LOW, not MEDIUM.
\<close>

theorem audio_only_recovery_single_step_witness:
  "currentVideoQuality recoveringState = AUDIO_ONLY
   \<and> targetQuality (currentVideoQuality recoveringState) MEDIUM 5 300 = LOW
   \<and> currentVideoQuality (adaptToNetworkConditions onePeerConnection recoveringState) = LOW
   \<and> currentVideoQuality (monitorNetworkQuality lossyCycle recoveringState) \<in> {AUDIO_ONLY, LOW}"
proof -
  have a: "currentVideoQuality recoveringState = AUDIO_ONLY"
    by code_simp
  have b: "currentVideoQuality (adaptToNetworkConditions onePeerConnection recoveringState) = LOW"
    by code_simp
  show ?thesis
    using audio_only_recovery_single_step [OF a, of MEDIUM 5 300 onePeerConnection lossyCycle] a b
    by simp
qed

section \<open>Aggregation and degradation\<close>

text \<open>
  With adaptive mode on and metrics of peers A (healthy) and B (20% loss, 4000 ms) stored,
  but no peer connection left to adjust, the conditions are severe and the quality stays
  HIGH: \<open>currentVideoQuality\<close> is only assigned while a video sender is adjusted.
\<close>

theorem stale_metrics_counterexample:
  "hasLocalStream twoPeerState \<and> isAdaptiveMode twoPeerState
   \<and> networkStats twoPeerState \<noteq> []
   \<and> worstQuality (aggregateStats (networkStats twoPeerState)) = AUDIO_ONLY
   \<and> maxPacketLoss (aggregateStats (networkStats twoPeerState)) > 15
   \<and> maxRtt (aggregateStats (networkStats twoPeerState)) > 3000
   \<and> currentVideoQuality (adaptToNetworkConditions [] twoPeerState) = HIGH"
  by code_simp

text \<open>
  Claim C4 (amended). In an adaptation cycle with a local stream, adaptive mode on and the
  metrics of at least one peer stored, \<open>maxLoss\<close> and \<open>maxRtt\<close> are the maxima over all
  peers of the link loss and of the round trip time (and of 0, the loop's start value),
  and the worst verdict is the verdict of least rank among the peers; none is an average.
  When the worst verdict is AUDIO_ONLY or \<open>maxLoss > 15\<close> or \<open>maxRtt > 3000\<close>, the target
  quality is AUDIO_ONLY from any current state, and \<open>currentVideoQuality\<close> is AUDIO_ONLY
  after the cycle provided some peer connection has a video sender.
\<close>

theorem worst_peer_forces_audio_only:
  assumes "hasLocalStream s" and "isAdaptiveMode s" and "networkStats s \<noteq> []"
  shows "maxPacketLoss (aggregateStats (networkStats s)) =
           Max (insert 0 (linkLoss ` snd ` set (networkStats s)))
         \<and> maxRtt (aggregateStats (networkStats s)) =
             Max (insert 0 (rtt ` snd ` set (networkStats s)))
         \<and> rank (worstQuality (aggregateStats (networkStats s))) =
             Min (rank ` quality ` snd ` set (networkStats s))
         \<and> (worstQuality (aggregateStats (networkStats s)) = AUDIO_ONLY
              \<or> maxPacketLoss (aggregateStats (networkStats s)) > 15
              \<or> maxRtt (aggregateStats (networkStats s)) > 3000
            \<longrightarrow> targetQuality (currentVideoQuality s)
                  (worstQuality (aggregateStats (networkStats s)))
                  (maxPacketLoss (aggregateStats (networkStats s)))
                  (maxRtt (aggregateStats (networkStats s))) = AUDIO_ONLY
                \<and> (videoSenders pcs \<noteq> []
                     \<longrightarrow> currentVideoQuality (adaptToNetworkConditions pcs s) = AUDIO_ONLY))"
proof -
  let ?a = "aggregateStats (networkStats s)"
  have l: "maxPacketLoss ?a = Max (insert 0 (linkLoss ` snd ` set (networkStats s)))"
    by (simp add: aggregateStats_def fold_aggregate_maxPacketLoss aggregate0_def)
  have r: "maxRtt ?a = Max (insert 0 (rtt ` snd ` set (networkStats s)))"
    by (simp add: aggregateStats_def fold_aggregate_maxRtt aggregate0_def)
  have w: "rank (worstQuality ?a) = Min (rank ` quality ` snd ` set (networkStats s))"
    using assms(3) by (rule aggregate_worst)
  have c: "peerCount ?a \<noteq> 0"
    using assms(3) by (simp add: aggregateStats_def fold_aggregate_peerCount)
  have t: "targetQuality (currentVideoQuality s) (worstQuality ?a) (maxPacketLoss ?a) (maxRtt ?a)
             = AUDIO_ONLY"
    if "worstQuality ?a = AUDIO_ONLY \<or> maxPacketLoss ?a > 15 \<or> maxRtt ?a > 3000"
    using that by (simp add: targetQuality_def)
  have q: "currentVideoQuality (adaptToNetworkConditions pcs s) = AUDIO_ONLY"
    if "worstQuality ?a = AUDIO_ONLY \<or> maxPacketLoss ?a > 15 \<or> maxRtt ?a > 3000"
      and "videoSenders pcs \<noteq> []"
  proof -
    from that(2) have ex: "\<exists>sd. sd \<in> set (videoSenders pcs)"
      by (cases "videoSenders pcs") auto
    show ?thesis
      using assms(1,2) c t [OF that(1)] ex
      by (auto simp add: adaptToNetworkConditions_def Let_def adjustAll_quality)
  qed
  show ?thesis
    using l r w t q by blast
qed

text \<open>
  Peer A is healthy, peer B has 20% loss and 4000 ms, and one connection has a video
  sender: the quality goes from HIGH to AUDIO_ONLY in that cycle.
\<close>

theorem worst_peer_forces_audio_only_witness:
  "hasLocalStream twoPeerState \<and> isAdaptiveMode twoPeerState
   \<and> networkStats twoPeerState \<noteq> []
   \<and> worstQuality (aggregateStats (networkStats twoPeerState)) = AUDIO_ONLY
   \<and> videoSenders onePeerConnection \<noteq> []
   \<and> currentVideoQuality twoPeerState = HIGH
   \<and> currentVideoQuality (adaptToNetworkConditions onePeerConnection twoPeerState) = AUDIO_ONLY"
proof -
  have a: "hasLocalStream twoPeerState" by code_simp
  have b: "isAdaptiveMode twoPeerState" by code_simp
  have c: "networkStats twoPeerState \<noteq> []" by code_simp
  have d: "worstQuality (aggregateStats (networkStats twoPeerState)) = AUDIO_ONLY" by code_simp
  have e: "videoSenders onePeerConnection \<noteq> []" by code_simp
  have f: "currentVideoQuality twoPeerState = HIGH" by code_simp
  show ?thesis
    using worst_peer_forces_audio_only [OF a b c, of onePeerConnection] a b c d e f
    by simp
qed

section \<open>Adaptive mode switched off\<close>

text \<open>
  Adaptive mode is switched off in audio-only mode while no peer connection exists: the
  handler finds no sender to adjust and the quality stays AUDIO_ONLY.
\<close>

theorem toggle_without_senders_counterexample:
  "isAdaptiveMode recoveringState \<and> currentVideoQuality recoveringState \<noteq> HIGH
   \<and> \<not> isAdaptiveMode (adaptiveModeToggle_onclick [] recoveringState)
   \<and> currentVideoQuality (adaptiveModeToggle_onclick [] recoveringState) = AUDIO_ONLY"
  by code_simp

text \<open>
  Claim C5 (amended). While adaptive mode is off, no sequence of monitoring runs, with any
  metrics, changes \<open>currentVideoQuality\<close>; in particular HIGH stays HIGH. When adaptive
  mode is switched off while the quality is not HIGH, the HIGH settings are applied to
  the video sender of every peer connection at once, and \<open>currentVideoQuality\<close> becomes
  HIGH if this succeeds for at least one sender; otherwise it keeps its value.
\<close>

theorem adaptive_off_keeps_quality:
  "(\<not> isAdaptiveMode s \<longrightarrow> currentVideoQuality (runCycles cs s) = currentVideoQuality s)
   \<and> (isAdaptiveMode s' \<and> currentVideoQuality s' \<noteq> HIGH \<longrightarrow>
        \<not> isAdaptiveMode (adaptiveModeToggle_onclick pcs s')
        \<and> currentVideoQuality (adaptiveModeToggle_onclick pcs s') =
            (if \<exists>sd\<in>set (videoSenders pcs). applySucceeds sd then HIGH
             else currentVideoQuality s'))"
proof -
  have b: "\<not> isAdaptiveMode (adaptiveModeToggle_onclick pcs s')
        \<and> currentVideoQuality (adaptiveModeToggle_onclick pcs s') =
            (if \<exists>sd\<in>set (videoSenders pcs). applySucceeds sd then HIGH
             else currentVideoQuality s')"
    if "isAdaptiveMode s'" and "currentVideoQuality s' \<noteq> HIGH"
    using that
    by (simp add: adaptiveModeToggle_onclick_def Let_def adjustAll_quality adjustAll_adaptive)
  show ?thesis
    using runCycles_off [of s cs] b by blast
qed

text \<open>
  Two monitoring runs with 20% loss leave the quality HIGH while adaptive mode is off;
  switching adaptive mode off in audio-only mode with a working video sender gives HIGH.
\<close>

theorem adaptive_off_keeps_quality_witness:
  "\<not> isAdaptiveMode manualState
   \<and> currentVideoQuality (runCycles [lossyCycle, lossyCycle] manualState) = HIGH
   \<and> isAdaptiveMode recoveringState \<and> currentVideoQuality recoveringState \<noteq> HIGH
   \<and> currentVideoQuality (adaptiveModeToggle_onclick onePeerConnection recoveringState) = HIGH"
proof -
  have a: "\<not> isAdaptiveMode manualState" by code_simp
  have b: "currentVideoQuality manualState = HIGH" by code_simp
  have c: "isAdaptiveMode recoveringState \<and> currentVideoQuality recoveringState \<noteq> HIGH"
    by code_simp
  have d: "\<exists>sd\<in>set (videoSenders onePeerConnection). applySucceeds sd"
    by code_simp
  show ?thesis
    using adaptive_off_keeps_quality [of manualState "[lossyCycle, lossyCycle]" recoveringState
        onePeerConnection] a b c d
    by simp
qed

section \<open>Packet loss\<close>

text \<open>
  Claim C6. The losses of a result lie in \<open>[0, 50]\<close> (\<open>analyzeStats_loss_range\<close>), and a
  loss from fewer than 100 packets is to be reported as 0. Only the fallback to the
  inbound entries asks for more than 100 packets; the loss from the remote end and the
  sender-side loss are computed from any positive number of packets. Here the remote end
  reports 1 packet lost and 9 received, and the video loss is 10, with verdict LOW.
\<close>

theorem small_sample_loss_reported:
  "map_option videoPacketLoss (analyzeStats measuringState 1003000 smallSampleStats ''B'') = Some 10
   \<and> map_option quality (analyzeStats measuringState 1003000 smallSampleStats ''B'') = Some LOW"
  by code_simp

section \<open>Insufficient data\<close>

text \<open>
  On the first run after joining nothing is stored for peer B, yet \<open>analyzeStats\<close>
  returns metrics for it and the monitoring run stores them with a verdict.
\<close>

theorem first_tick_counterexample:
  "map_of (networkStats (joinedState 1000000)) ''B'' = None
   \<and> analyzeStats (joinedState 1000000) 1003000
        [outboundVideoReport 50000 100, candidateReport 4] ''B'' \<noteq> None
   \<and> map_option quality
        (map_of (networkStats (monitorNetworkQuality graceCycle (joinedState 1000000))) ''B'')
       = Some HIGH"
  by code_simp

text \<open>
  Claim C7 (amended). The stats analyzer reports insufficient data (the result null)
  exactly when the snapshot has no outbound or inbound RTP entry for video or audio, and
  then the monitoring loop leaves the state as it is. When no previous metrics are stored
  for the link, a snapshot with such an entry still yields metrics: both bitrates are 0
  and the verdict is the classifier's on the round trip time and loss at hand. Every
  result is stored for the link, so the link contributes its verdict to the cycle.
\<close>

theorem insufficient_data_only_without_reports:
  "(analyzeStats s (dateNow pc) stats p = None \<longleftrightarrow>
      (pick OutboundVideo stats = None \<and> pick OutboundAudio stats = None
       \<and> pick InboundVideo stats = None \<and> pick InboundAudio stats = None))
   \<and> (map_of (networkStats s) p = None \<and> analyzeStats s (dateNow pc) stats p = Some m
        \<longrightarrow> videoBitrate m = Fin 0 \<and> audioBitrate m = Fin 0
            \<and> quality m = determineQuality (initialConnectionPhase s) (rtt m) (linkLoss m) (Fin 0))
   \<and> (getStats pc = Some stats \<and> analyzeStats s (dateNow pc) stats p = Some m
        \<longrightarrow> map_of (networkStats (monitorPeer (p, pc) s)) p = Some m)
   \<and> (getStats pc = Some stats \<and> analyzeStats s (dateNow pc) stats p = None
        \<longrightarrow> monitorPeer (p, pc) s = s)"
proof -
  have b: "videoBitrate m = Fin 0 \<and> audioBitrate m = Fin 0
            \<and> quality m = determineQuality (initialConnectionPhase s) (rtt m) (linkLoss m) (Fin 0)"
    if "map_of (networkStats s) p = None" and "analyzeStats s (dateNow pc) stats p = Some m"
    using analyzeStats_bitrates [OF that(2)] analyzeStats_quality [OF that(2)] that(1)
    by (simp add: outboundMetrics_no_previous linkLoss_def)
  have c: "map_of (networkStats (monitorPeer (p, pc) s)) p = Some m"
    if "getStats pc = Some stats" and "analyzeStats s (dateNow pc) stats p = Some m"
    using that by (simp add: monitorPeer_def map_of_map_set)
  have d: "monitorPeer (p, pc) s = s"
    if "getStats pc = Some stats" and "analyzeStats s (dateNow pc) stats p = None"
    using that by (simp add: monitorPeer_def)
  show ?thesis
    using analyzeStats_None_iff [of s "dateNow pc" stats p] b c d by blast
qed

text \<open>
  A first snapshot with an outbound video entry gives metrics with bitrates 0, which are
  stored; a snapshot with a candidate pair only gives null and changes nothing.
\<close>

theorem insufficient_data_only_without_reports_witness:
  "map_of (networkStats measuringState) ''B'' = None
   \<and> getStats (peerWith smallSampleStats) = Some smallSampleStats
   \<and> analyzeStats measuringState (dateNow (peerWith smallSampleStats)) smallSampleStats ''B''
       \<noteq> None
   \<and> videoBitrate (the (analyzeStats measuringState (dateNow (peerWith smallSampleStats))
        smallSampleStats ''B'')) = Fin 0
   \<and> audioBitrate (the (analyzeStats measuringState (dateNow (peerWith smallSampleStats))
        smallSampleStats ''B'')) = Fin 0
   \<and> map_of (networkStats (monitorPeer (''B'', peerWith smallSampleStats) measuringState)) ''B''
       = analyzeStats measuringState (dateNow (peerWith smallSampleStats)) smallSampleStats ''B''
   \<and> getStats (peerWith [candidateReport 4]) = Some [candidateReport 4]
   \<and> analyzeStats measuringState (dateNow (peerWith [candidateReport 4])) [candidateReport 4] ''B''
       = None
   \<and> monitorPeer (''B'', peerWith [candidateReport 4]) measuringState = measuringState"
proof -
  let ?pc = "peerWith smallSampleStats"
  let ?m = "the (analyzeStats measuringState (dateNow ?pc) smallSampleStats ''B'')"
  let ?pc' = "peerWith [candidateReport 4]"
  have a: "map_of (networkStats measuringState) ''B'' = None" by code_simp
  have b: "analyzeStats measuringState (dateNow ?pc) smallSampleStats ''B'' = Some ?m"
    by code_simp
  have c: "pick OutboundVideo [candidateReport 4] = None
       \<and> pick OutboundAudio [candidateReport 4] = None
       \<and> pick InboundVideo [candidateReport 4] = None
       \<and> pick InboundAudio [candidateReport 4] = None"
    by code_simp
  have d: "analyzeStats measuringState (dateNow ?pc) smallSampleStats ''B'' \<noteq> None"
    by code_simp
  have e: "getStats ?pc = Some smallSampleStats" "getStats ?pc' = Some [candidateReport 4]"
    by (simp_all add: peerWith_def)
  show ?thesis
    using insufficient_data_only_without_reports [of measuringState ?pc smallSampleStats "''B''" ?m]
      insufficient_data_only_without_reports [of measuringState ?pc' "[candidateReport 4]" "''B''"]
      a b c d e
    by simp
qed

section \<open>Bitrate\<close>

text \<open>
  Claim C8. The bitrate is \<open>(bytesDelta * 8) / timeDeltaSec\<close> with the byte delta floored
  at 0, a counter that went down being ignored for that tick. The source guards the
  packet deltas of the loss computation but divides the raw byte delta: peer B had sent
  1000 bytes, its next entry 3 seconds later reports 400, and the video bitrate is
  \<open>-1600\<close>.
\<close>

theorem counter_reset_negative_bitrate:
  "map_option videoBitrate (analyzeStats resetState 1003000 resetStats ''B'') = Some (Fin (- 1600))"
  by code_simp

section \<open>The active speaker\<close>

text \<open>
  The last tracked participant, the active speaker B, has left: no participant
  qualifies, and the tick keeps B as active speaker.
\<close>

theorem empty_levels_counterexample:
  "audioLevels lastSpeakerLeft = []
   \<and> activeSpeaker lastSpeakerLeft = Some ''B''
   \<and> activeSpeaker (fst (updateActiveSpeaker 10000 lastSpeakerLeft)) = Some ''B''"
  by code_simp

text \<open>
  Claim C9 (amended). A tick with no tracked audio level at all does nothing: the active
  speaker is kept and no change is announced. On every tick with at least one tracked
  audio level, the active speaker becomes a participant whose level was updated within
  the last 2 seconds and exceeds the threshold 0.01, with the highest level among the
  participants that qualify, and becomes absent when no participant qualifies; the
  change is announced exactly when the new speaker differs from the previous one.
\<close>

theorem active_speaker_selection:
  "(audioLevels s = [] \<longrightarrow> updateActiveSpeaker now s = (s, False))
   \<and> (audioLevels s \<noteq> [] \<longrightarrow>
        (case activeSpeaker (fst (updateActiveSpeaker now s)) of
           None \<Rightarrow> \<forall>pd\<in>set (audioLevels s). \<not> qualifies now pd
         | Some p \<Rightarrow>
             \<exists>d. (p, d) \<in> set (audioLevels s) \<and> qualifies now (p, d)
                 \<and> (\<forall>pd\<in>set (audioLevels s). qualifies now pd \<longrightarrow> level (snd pd) \<le> level d))
        \<and> snd (updateActiveSpeaker now s)
            = (activeSpeaker (fst (updateActiveSpeaker now s)) \<noteq> activeSpeaker s))"
proof -
  let ?acc = "fold (speakerStep now) (audioLevels s) (0, None)"
  have inv: "speakerInv now (set (audioLevels s)) ?acc"
    by (rule speaker_loop)
  have sp: "activeSpeaker (fst (updateActiveSpeaker now s)) = snd ?acc" if "audioLevels s \<noteq> []"
    using that by (simp add: updateActiveSpeaker_def Let_def)
  have em: "snd (updateActiveSpeaker now s) = (snd ?acc \<noteq> activeSpeaker s)"
    if "audioLevels s \<noteq> []"
    using that by (simp add: updateActiveSpeaker_def Let_def)
  have sel: "case snd ?acc of
           None \<Rightarrow> \<forall>pd\<in>set (audioLevels s). \<not> qualifies now pd
         | Some p \<Rightarrow>
             \<exists>d. (p, d) \<in> set (audioLevels s) \<and> qualifies now (p, d)
                 \<and> (\<forall>pd\<in>set (audioLevels s). qualifies now pd \<longrightarrow> level (snd pd) \<le> level d)"
  proof (cases "snd ?acc")
    case None
    then show ?thesis
      using inv by (simp add: speakerInv_def)
  next
    case (Some p)
    then obtain d where d: "(p, d) \<in> set (audioLevels s)" "qualifies now (p, d)"
        "level d = fst ?acc"
        "\<forall>pd\<in>set (audioLevels s). qualifies now pd \<longrightarrow> level (snd pd) \<le> fst ?acc"
      using inv unfolding speakerInv_def by (simp only: option.case) blast
    have "(p, d) \<in> set (audioLevels s) \<and> qualifies now (p, d)
          \<and> (\<forall>pd\<in>set (audioLevels s). qualifies now pd \<longrightarrow> level (snd pd) \<le> level d)"
      using d by (simp only: simp_thms)
    then show ?thesis
      unfolding Some option.case by (rule exI)
  qed
  show ?thesis
    using sp em sel by (simp add: updateActiveSpeaker_def)
qed

text \<open>
  Levels A 0.02 (age 500 ms), B 0.6 (age 100 ms), C 0.5 (age 3000 ms): the active
  speaker becomes B and the change is announced; half a second later nothing is
  announced. With no tracked level the tick returns the state as it is.
\<close>

theorem active_speaker_selection_witness:
  "audioLevels threeSpeakerState \<noteq> []
   \<and> activeSpeaker (fst (updateActiveSpeaker 10000 threeSpeakerState)) = Some ''B''
   \<and> snd (updateActiveSpeaker 10000 threeSpeakerState)
   \<and> \<not> snd (updateActiveSpeaker 10500 (fst (updateActiveSpeaker 10000 threeSpeakerState)))
   \<and> audioLevels lastSpeakerLeft = []
   \<and> updateActiveSpeaker 10000 lastSpeakerLeft = (lastSpeakerLeft, False)"
proof -
  have a: "audioLevels threeSpeakerState \<noteq> []" by code_simp
  have b: "activeSpeaker (fst (updateActiveSpeaker 10000 threeSpeakerState)) = Some ''B''"
    by code_simp
  have c: "activeSpeaker threeSpeakerState = None" by code_simp
  have d: "\<not> snd (updateActiveSpeaker 10500 (fst (updateActiveSpeaker 10000 threeSpeakerState)))"
    by code_simp
  have e: "audioLevels lastSpeakerLeft = []" by code_simp
  show ?thesis
    using active_speaker_selection [of threeSpeakerState 10000]
      active_speaker_selection [of lastSpeakerLeft 10000] a b c d e
    by simp
qed

section \<open>adjustVideoQuality\<close>

text \<open>
  Claim C10. When \<open>adjustVideoQuality\<close> is called for a sender with a track and a target
  other than AUDIO_ONLY, and applying the constraints or the encoder parameters throws,
  \<open>currentVideoQuality\<close> keeps its previous value: it is assigned only after all these
  calls have returned, and then it is the target. For the target AUDIO_ONLY the
  assignment always takes effect.
\<close>

theorem quality_assigned_after_apply:
  assumes "track sd \<noteq> None"
  shows "(q \<noteq> AUDIO_ONLY \<and> \<not> applySucceeds sd \<longrightarrow>
            currentVideoQuality (adjustVideoQuality q (Some sd) s) = currentVideoQuality s)
         \<and> (q \<noteq> AUDIO_ONLY \<and> applySucceeds sd \<longrightarrow>
              currentVideoQuality (adjustVideoQuality q (Some sd) s) = q)
         \<and> currentVideoQuality (adjustVideoQuality AUDIO_ONLY (Some sd) s) = AUDIO_ONLY"
  using assms by (simp add: adjustVideoQuality_quality)

text \<open>
  A sender whose \<open>setParameters\<close> throws leaves the quality AUDIO_ONLY for the target
  MEDIUM, and still sets AUDIO_ONLY from HIGH; a sender without failures sets MEDIUM.
\<close>

theorem quality_assigned_after_apply_witness:
  "track failingSender \<noteq> None \<and> \<not> applySucceeds failingSender
   \<and> currentVideoQuality (adjustVideoQuality MEDIUM (Some failingSender) recoveringState) = AUDIO_ONLY
   \<and> currentVideoQuality (adjustVideoQuality AUDIO_ONLY (Some failingSender) measuringState) = AUDIO_ONLY
   \<and> applySucceeds goodSender
   \<and> currentVideoQuality (adjustVideoQuality MEDIUM (Some goodSender) recoveringState) = MEDIUM"
proof -
  have a: "track failingSender \<noteq> None" by code_simp
  have b: "\<not> applySucceeds failingSender" by code_simp
  have c: "currentVideoQuality recoveringState = AUDIO_ONLY" by code_simp
  have d: "track goodSender \<noteq> None" by code_simp
  have e: "applySucceeds goodSender" by code_simp
  show ?thesis
    using quality_assigned_after_apply [OF a, of MEDIUM recoveringState]
      quality_assigned_after_apply [OF a, of MEDIUM measuringState]
      quality_assigned_after_apply [OF d, of MEDIUM recoveringState] a b c d e
    by simp
qed

end
